theory Spec2Isabelle
  imports Main "HOL-Library.Word"
begin

section \<open>The mailer client: data model\<close>

text \<open>
  The package \<open>mailer\<close> (file \<open>mailer-client.go\<close>) declares four structs, a constructor
  \<open>NewClient\<close> and one method \<open>Send\<close>. Go strings are byte sequences, modelled as
  \<open>string\<close> (a list of 8-bit characters). A Go slice may be \<open>nil\<close>, which
  \<open>encoding/json\<close> tells apart from an empty slice, so \<open>[]string\<close> is a
  \<open>string list option\<close> with \<open>None\<close> for \<open>nil\<close>. A pointer that may be \<open>nil\<close> is an
  \<open>option\<close> as well.
\<close>

text \<open>\<open>time.Duration\<close> is an \<open>int64\<close> count of nanoseconds.\<close>

type_synonym Duration = "64 word"

definition Second :: Duration where
  "Second = 1000000000"

text \<open>Of \<open>http.Client\<close> the package sets the field \<open>Timeout\<close> only.\<close>

record http_Client =
  Timeout :: Duration

record Client =
  BaseURL :: string
  Client :: "http_Client option"

record Creds =
  Email :: string
  Pwd :: string

record EmailReq =
  Creds :: Creds
  ToList :: "string list option"
  Subject :: string
  Body :: string
  Html :: bool
  FromName :: string

record EmailRes =
  Success :: bool
  Message :: string

definition NewClient :: "string \<Rightarrow> Client" where
  "NewClient baseURL = \<lparr>BaseURL = baseURL, Client = Some \<lparr>Timeout = 10 * Second\<rparr>\<rparr>"


section \<open>UTF-8, as package \<open>unicode/utf8\<close> reads and writes it\<close>

text \<open>Runes are code points, kept as integers (Go's \<open>rune\<close> is an \<open>int32\<close>; no operation here leaves
  its range). \<open>RuneError\<close> is U+FFFD.\<close>

definition RuneError :: int where
  "RuneError = 0xFFFD"

definition byte :: "char \<Rightarrow> int" where
  "byte c = of_char c"

definition is_cont :: "char \<Rightarrow> bool" where
  "is_cont c = (0x80 \<le> byte c \<and> byte c \<le> 0xBF)"

text \<open>
  \<open>utf8.DecodeRuneInString\<close>: the first rune of the input and the number of bytes it takes.
  An invalid or truncated encoding gives \<open>(RuneError, 1)\<close>, the empty input
  \<open>(RuneError, 0)\<close>. The second byte of a three- or four-byte encoding has a range that
  depends on the first byte (no overlong forms, no surrogates, nothing above U+10FFFF).
\<close>

fun DecodeRune :: "string \<Rightarrow> int \<times> nat" where
  "DecodeRune [] = (RuneError, 0)"
| "DecodeRune (c0 # cs) =
     (let s0 = byte c0 in
      if s0 < 0x80 then (s0, 1)
      else if s0 < 0xC2 \<or> 0xF4 < s0 then (RuneError, 1)
      else
        let sz = (if s0 < 0xE0 then 2 else if s0 < 0xF0 then 3 else 4 :: nat);
            lo = (if s0 = 0xE0 then 0xA0 else if s0 = 0xF0 then 0x90 else 0x80);
            hi = (if s0 = 0xED then 0x9F else if s0 = 0xF4 then 0x8F else 0xBF)
        in
        if Suc (length cs) < sz then (RuneError, 1)
        else if byte (cs ! 0) < lo \<or> hi < byte (cs ! 0) then (RuneError, 1)
        else if sz \<le> 2 then (s0 mod 0x20 * 0x40 + byte (cs ! 0) mod 0x40, 2)
        else if \<not> is_cont (cs ! 1) then (RuneError, 1)
        else if sz \<le> 3 then
          ((s0 mod 0x10 * 0x40 + byte (cs ! 0) mod 0x40) * 0x40 + byte (cs ! 1) mod 0x40, 3)
        else if \<not> is_cont (cs ! 2) then (RuneError, 1)
        else
          (((s0 mod 0x08 * 0x40 + byte (cs ! 0) mod 0x40) * 0x40 + byte (cs ! 1) mod 0x40) * 0x40
             + byte (cs ! 2) mod 0x40, 4))"

lemma DecodeRune_size: "0 < snd (DecodeRune (c # cs))"
  by (simp add: Let_def)

lemma DecodeRune_drop: "(r, n) = DecodeRune (c # cs) \<Longrightarrow> length (drop n (c # cs)) < Suc (length cs)"
proof -
  assume "(r, n) = DecodeRune (c # cs)"
  then have "snd (DecodeRune (c # cs)) = n"
    by (metis snd_conv)
  with DecodeRune_size [of c cs] have "0 < n"
    by (simp del: DecodeRune.simps)
  then show ?thesis
    by (cases n) simp_all
qed

declare DecodeRune.simps [simp del]

text \<open>
  \<open>utf8.AppendRune\<close>: a surrogate or a value above U+10FFFF is written as U+FFFD.
\<close>

definition EncodeRune :: "int \<Rightarrow> string" where
  "EncodeRune r =
     (if r < 0x80 then [char_of r]
      else if r < 0x800 then [char_of (0xC0 + r div 0x40), char_of (0x80 + r mod 0x40)]
      else if 0x10FFFF < r \<or> (0xD800 \<le> r \<and> r \<le> 0xDFFF) then
        [CHR 0xEF, CHR 0xBF, CHR 0xBD]
      else if r < 0x10000 then
        [char_of (0xE0 + r div 0x1000), char_of (0x80 + (r div 0x40) mod 0x40),
         char_of (0x80 + r mod 0x40)]
      else
        [char_of (0xF0 + r div 0x40000), char_of (0x80 + (r div 0x1000) mod 0x40),
         char_of (0x80 + (r div 0x40) mod 0x40), char_of (0x80 + r mod 0x40)])"


section \<open>\<open>json.Marshal\<close> on the request\<close>

text \<open>
  \<open>json.Marshal\<close> walks a Go value by reflection. The values it can meet are modelled by
  \<open>go_value\<close>: strings, booleans, slices (possibly \<open>nil\<close>) and structs, whose fields are
  listed in declaration order under the names of their \<open>json\<close> tags, and the kinds that
  \<open>encoding/json\<close> refuses (channels, functions, complex numbers), for which it returns
  an \<open>UnsupportedTypeError\<close>.
\<close>

datatype go_value =
    GoString string
  | GoBool bool
  | GoSlice "go_value list option"
  | GoStruct "(string \<times> go_value) list"
  | GoChan
  | GoFunc
  | GoComplex

datatype json_MarshalError = UnsupportedTypeError

definition hex :: "int \<Rightarrow> char" where
  "hex n = ''0123456789abcdef'' ! nat n"

text \<open>
  The bytes below 0x80 that the encoder copies unchanged when HTML escaping is on (the
  default of \<open>json.Marshal\<close>): everything from the space upwards but the double quote, the
  backslash and the characters \<open><\<close>, \<open>>\<close>, \<open>&\<close>.
\<close>

definition htmlSafe :: "char \<Rightarrow> bool" where
  "htmlSafe c = (0x20 \<le> byte c \<and> byte c < 0x80
     \<and> c \<noteq> CHR 0x22 \<and> c \<noteq> CHR 0x5C \<and> c \<noteq> CHR ''<'' \<and> c \<noteq> CHR ''>'' \<and> c \<noteq> CHR ''&'')"

text \<open>
  The escape of one byte below 0x80 that is not copied unchanged (backspace and form
  feed have had their short escapes since Go 1.22).
\<close>

definition escape_byte :: "char \<Rightarrow> string" where
  "escape_byte c =
     (if c = CHR 0x5C \<or> c = CHR 0x22 then [CHR 0x5C, c]
      else if c = CHR 0x08 then [CHR 0x5C, CHR ''b'']
      else if c = CHR 0x0C then [CHR 0x5C, CHR ''f'']
      else if c = CHR 0x0A then [CHR 0x5C, CHR ''n'']
      else if c = CHR 0x0D then [CHR 0x5C, CHR ''r'']
      else if c = CHR 0x09 then [CHR 0x5C, CHR ''t'']
      else [CHR 0x5C, CHR ''u'', CHR ''0'', CHR ''0'', hex (byte c div 16), hex (byte c mod 16)])"

text \<open>
  The body of a JSON string literal for a Go string. An invalid UTF-8 byte is written as
  the escape of U+FFFD, the line separators U+2028 and U+2029 as escapes, every other
  rune above 0x7F as its own bytes.
\<close>

function encode_runes :: "string \<Rightarrow> string" where
  "encode_runes [] = []"
| "encode_runes (c # cs) =
     (if byte c < 0x80 then
        (if htmlSafe c then [c] else escape_byte c) @ encode_runes cs
      else
        (case DecodeRune (c # cs) of (r, n) \<Rightarrow>
           if r = RuneError \<and> n = 1 then
             [CHR 0x5C, CHR ''u'', CHR ''f'', CHR ''f'', CHR ''f'', CHR ''d''] @ encode_runes cs
           else if r = 0x2028 \<or> r = 0x2029 then
             [CHR 0x5C, CHR ''u'', CHR ''2'', CHR ''0'', CHR ''2'', hex (r mod 16)]
               @ encode_runes (drop n (c # cs))
           else take n (c # cs) @ encode_runes (drop n (c # cs))))"
  by pat_completeness auto

termination encode_runes
  by (relation "measure length") (auto dest: DecodeRune_drop)

definition encode_string :: "string \<Rightarrow> string" where
  "encode_string s = [CHR 0x22] @ encode_runes s @ [CHR 0x22]"

fun join_comma :: "string list \<Rightarrow> string" where
  "join_comma [] = []"
| "join_comma [d] = d"
| "join_comma (d # ds) = d @ '','' @ join_comma ds"

text \<open>
  The encoder stops at the first value it cannot encode; \<open>collect\<close> gathers the encodings
  of a sequence of values in that way.
\<close>

fun collect :: "(json_MarshalError + string) list \<Rightarrow> json_MarshalError + string list" where
  "collect [] = Inr []"
| "collect (Inl e # _) = Inl e"
| "collect (Inr d # rs) = (case collect rs of Inl e \<Rightarrow> Inl e | Inr ds \<Rightarrow> Inr (d # ds))"

fun encode_value :: "go_value \<Rightarrow> json_MarshalError + string" where
  "encode_value (GoString s) = Inr (encode_string s)"
| "encode_value (GoBool b) = Inr (if b then ''true'' else ''false'')"
| "encode_value (GoSlice None) = Inr ''null''"
| "encode_value (GoSlice (Some vs)) =
     (case collect (map encode_value vs) of
        Inl e \<Rightarrow> Inl e
      | Inr ds \<Rightarrow> Inr (''['' @ join_comma ds @ '']''))"
| "encode_value (GoStruct fs) =
     (case collect (map (\<lambda>f. case encode_value (snd f) of
                                 Inl e \<Rightarrow> Inl e
                               | Inr d \<Rightarrow> Inr (encode_string (fst f) @ '':'' @ d)) fs) of
        Inl e \<Rightarrow> Inl e
      | Inr ds \<Rightarrow> Inr (''{'' @ join_comma ds @ ''}''))"
| "encode_value GoChan = Inl UnsupportedTypeError"
| "encode_value GoFunc = Inl UnsupportedTypeError"
| "encode_value GoComplex = Inl UnsupportedTypeError"

text \<open>
  What reflection sees of the two request structs (lines 43-50 and 59-62): every field is
  exported and tagged, no tag has \<open>omitempty\<close>.
\<close>

definition Creds_value :: "Creds \<Rightarrow> go_value" where
  "Creds_value cr = GoStruct [(''email'', GoString (Email cr)), (''pwd'', GoString (Pwd cr))]"

definition EmailReq_value :: "EmailReq \<Rightarrow> go_value" where
  "EmailReq_value req = GoStruct
     [(''creds'', Creds_value (Creds req)),
      (''to_list'', GoSlice (map_option (map GoString) (ToList req))),
      (''subject'', GoString (Subject req)),
      (''body'', GoString (Body req)),
      (''html'', GoBool (Html req)),
      (''from_name'', GoString (FromName req))]"

definition Marshal :: "EmailReq \<Rightarrow> json_MarshalError + string" where
  "Marshal req = encode_value (EmailReq_value req)"


section \<open>Decoding the response body\<close>

text \<open>
  \<open>json.NewDecoder(res.Body).Decode(&resp)\<close> reads the first JSON value of the body and
  stores it into \<open>resp\<close>. It is modelled in two steps: \<open>readValue\<close> reads the first value
  of the byte stream (whatever follows it is left unread), \<open>unmarshal\<close> stores it into an
  \<open>EmailRes\<close>. \<open>None\<close> stands for a non-nil error of \<open>Decode\<close>, whichever it is;
  \<open>Send\<close> does not look at it. The body is a finite byte string that is read to its end
  without a read error.
\<close>

datatype json =
    JNull
  | JBool bool
  | JNumber
  | JString string
  | JArray "json list"
  | JObject "(string \<times> json) list"

subsection \<open>Tokens\<close>

definition isSpace :: "char \<Rightarrow> bool" where
  "isSpace c = (c = CHR '' '' \<or> c = CHR 0x09 \<or> c = CHR 0x0D \<or> c = CHR 0x0A)"

definition isDigit :: "char \<Rightarrow> bool" where
  "isDigit c = (0x30 \<le> byte c \<and> byte c \<le> 0x39)"

definition hexval :: "char \<Rightarrow> int option" where
  "hexval c =
     (if isDigit c then Some (byte c - 0x30)
      else if 0x61 \<le> byte c \<and> byte c \<le> 0x66 then Some (byte c - 0x61 + 10)
      else if 0x41 \<le> byte c \<and> byte c \<le> 0x46 then Some (byte c - 0x41 + 10)
      else None)"

text \<open>
  \<open>getu4\<close>: the value of a backslash, \<open>u\<close> and four hexadecimal digits at the head of the
  input, or \<open>-1\<close>.
\<close>

definition getu4 :: "string \<Rightarrow> int" where
  "getu4 s =
     (if length s < 6 \<or> s ! 0 \<noteq> CHR 0x5C \<or> s ! 1 \<noteq> CHR ''u'' then - 1
      else case those (map hexval (take 4 (drop 2 s))) of
             None \<Rightarrow> - 1
           | Some ds \<Rightarrow> foldl (\<lambda>r d. r * 16 + d) 0 ds)"

text \<open>\<open>utf16.DecodeRune\<close>: the code point of a surrogate pair, U+FFFD for anything else.\<close>

definition utf16_DecodeRune :: "int \<Rightarrow> int \<Rightarrow> int" where
  "utf16_DecodeRune r1 r2 =
     (if 0xD800 \<le> r1 \<and> r1 < 0xDC00 \<and> 0xDC00 \<le> r2 \<and> r2 < 0xE000
      then (r1 - 0xD800) * 0x400 + (r2 - 0xDC00) + 0x10000
      else RuneError)"

text \<open>The character a one-letter escape stands for.\<close>

definition unescape :: "char \<Rightarrow> char option" where
  "unescape e =
     (if e = CHR 0x22 \<or> e = CHR 0x5C \<or> e = CHR ''/'' then Some e
      else if e = CHR ''b'' then Some (CHR 0x08)
      else if e = CHR ''f'' then Some (CHR 0x0C)
      else if e = CHR ''n'' then Some (CHR 0x0A)
      else if e = CHR ''r'' then Some (CHR 0x0D)
      else if e = CHR ''t'' then Some (CHR 0x09)
      else None)"

definition prepend :: "string \<Rightarrow> (string \<times> string) option \<Rightarrow> (string \<times> string) option" where
  "prepend xs r = (case r of None \<Rightarrow> None | Some (str, rest) \<Rightarrow> Some (xs @ str, rest))"

text \<open>
  A string literal after its opening quote: the string it denotes and the input after
  the closing quote. The scanner refuses a control character and a malformed escape;
  unquoting replaces an invalid UTF-8 byte and an unpaired surrogate escape by U+FFFD.
\<close>

function lex_string :: "string \<Rightarrow> (string \<times> string) option" where
  "lex_string [] = None"
| "lex_string (c # cs) =
     (if c = CHR 0x22 then Some ([], cs)
      else if c = CHR 0x5C then
        (case cs of
           [] \<Rightarrow> None
         | e # cs' \<Rightarrow>
             if e = CHR ''u'' then
               (let rr = getu4 (c # cs) in
                if rr < 0 then None
                else if 0xD800 \<le> rr \<and> rr < 0xE000 then
                  (let dec = utf16_DecodeRune rr (getu4 (drop 6 (c # cs))) in
                   if dec \<noteq> RuneError
                   then prepend (EncodeRune dec) (lex_string (drop 12 (c # cs)))
                   else prepend (EncodeRune RuneError) (lex_string (drop 6 (c # cs))))
                else prepend (EncodeRune rr) (lex_string (drop 6 (c # cs))))
             else
               (case unescape e of
                  None \<Rightarrow> None
                | Some ch \<Rightarrow> prepend [ch] (lex_string cs')))
      else if byte c < 0x20 then None
      else if byte c < 0x80 then prepend [c] (lex_string cs)
      else
        (case DecodeRune (c # cs) of (rr, n) \<Rightarrow>
           prepend (EncodeRune rr) (lex_string (drop n (c # cs)))))"
  by pat_completeness auto

termination lex_string
  by (relation "measure length") (auto dest: DecodeRune_drop)

declare lex_string.simps [simp del]

text \<open>
  A number literal: the input after it, if the input starts with one. The three parts
  follow the scanner's states \<open>stateNeg\<close>/\<open>state0\<close>/\<open>state1\<close>, \<open>stateDot\<close>/\<open>stateDot0\<close>
  and \<open>stateE\<close>/\<open>stateESign\<close>/\<open>stateE0\<close>.
\<close>

definition lex_exp :: "string \<Rightarrow> string option" where
  "lex_exp s =
     (case s of
        [] \<Rightarrow> Some s
      | c # cs \<Rightarrow>
          if c = CHR ''e'' \<or> c = CHR ''E'' then
            (case (case cs of
                     [] \<Rightarrow> cs
                   | sg # r \<Rightarrow> if sg = CHR ''+'' \<or> sg = CHR ''-'' then r else cs) of
               [] \<Rightarrow> None
             | d # ds \<Rightarrow> if isDigit d then Some (dropWhile isDigit ds) else None)
          else Some s)"

definition lex_frac :: "string \<Rightarrow> string option" where
  "lex_frac s =
     (case s of
        [] \<Rightarrow> lex_exp s
      | c # cs \<Rightarrow>
          if c = CHR ''.'' then
            (case cs of
               [] \<Rightarrow> None
             | d # ds \<Rightarrow> if isDigit d then lex_exp (dropWhile isDigit ds) else None)
          else lex_exp s)"

definition lex_number :: "string \<Rightarrow> string option" where
  "lex_number s =
     (case (case s of [] \<Rightarrow> s | c # cs \<Rightarrow> if c = CHR ''-'' then cs else s) of
        [] \<Rightarrow> None
      | d # ds \<Rightarrow>
          if d = CHR ''0'' then lex_frac ds
          else if isDigit d then lex_frac (dropWhile isDigit ds)
          else None)"

datatype token =
    BeginObject | EndObject | BeginArray | EndArray | Colon | Comma
  | StringLit string | NumberLit | TrueLit | FalseLit | NullLit

datatype lexed = EndOfInput | Invalid | Token token string

text \<open>The next token, after any white space, and the input after it.\<close>

definition lex :: "string \<Rightarrow> lexed" where
  "lex s =
     (case dropWhile isSpace s of
        [] \<Rightarrow> EndOfInput
      | c # cs \<Rightarrow>
          if c = CHR ''{'' then Token BeginObject cs
          else if c = CHR ''}'' then Token EndObject cs
          else if c = CHR ''['' then Token BeginArray cs
          else if c = CHR '']'' then Token EndArray cs
          else if c = CHR '':'' then Token Colon cs
          else if c = CHR '','' then Token Comma cs
          else if c = CHR 0x22 then
            (case lex_string cs of
               None \<Rightarrow> Invalid
             | Some (str, rest) \<Rightarrow> Token (StringLit str) rest)
          else if c = CHR ''-'' \<or> isDigit c then
            (case lex_number (c # cs) of
               None \<Rightarrow> Invalid
             | Some rest \<Rightarrow> Token NumberLit rest)
          else if take 4 (c # cs) = ''true'' then Token TrueLit (drop 4 (c # cs))
          else if take 5 (c # cs) = ''false'' then Token FalseLit (drop 5 (c # cs))
          else if take 4 (c # cs) = ''null'' then Token NullLit (drop 4 (c # cs))
          else Invalid)"

text \<open>Every token takes at least one byte of input.\<close>

lemma prepend_Some:
  "prepend xs r = Some (str, rest) \<Longrightarrow> \<exists>str'. r = Some (str', rest)"
  by (auto simp: prepend_def split: option.splits)

lemma lex_string_tailI:
  "prepend xs (lex_string t) = Some (str, rest) \<Longrightarrow> length t \<le> length cs
    \<Longrightarrow> \<exists>t str'. length t \<le> length cs \<and> lex_string t = Some (str', rest)"
  by (auto dest: prepend_Some)

lemma DecodeRune_drop_le:
  "DecodeRune (c # cs) = (r, n) \<Longrightarrow> length (drop n (c # cs)) \<le> length cs"
  using DecodeRune_drop [of r n c cs] by simp

lemma lex_string_Cons:
  assumes "lex_string (c # cs) = Some (str, rest)"
  shows "rest = cs \<or> (\<exists>t str'. length t \<le> length cs \<and> lex_string t = Some (str', rest))"
proof (cases "c = CHR 0x22")
  case True
  with assms show ?thesis by (simp add: lex_string.simps)
next
  case quote: False
  show ?thesis
  proof (cases "c = CHR 0x5C")
    case True
    show ?thesis
    proof (cases cs)
      case Nil
      with assms quote True show ?thesis by (simp add: lex_string.simps)
    next
      case (Cons e cs')
      show ?thesis
      proof (cases "e = CHR ''u''")
        case u: True
        from assms quote True Cons u
        have "(\<exists>xs. prepend xs (lex_string (drop 12 (c # cs))) = Some (str, rest))
            \<or> (\<exists>xs. prepend xs (lex_string (drop 6 (c # cs))) = Some (str, rest))"
          by (simp add: lex_string.simps Let_def split: if_splits) blast+
        then show ?thesis
        proof (elim disjE exE)
          fix xs assume "prepend xs (lex_string (drop 12 (c # cs))) = Some (str, rest)"
          then have "\<exists>t str'. length t \<le> length cs \<and> lex_string t = Some (str', rest)"
            by (rule lex_string_tailI) simp
          then show ?thesis ..
        next
          fix xs assume "prepend xs (lex_string (drop 6 (c # cs))) = Some (str, rest)"
          then have "\<exists>t str'. length t \<le> length cs \<and> lex_string t = Some (str', rest)"
            by (rule lex_string_tailI) simp
          then show ?thesis ..
        qed
      next
        case False
        with assms quote True Cons
        have "\<exists>xs. prepend xs (lex_string cs') = Some (str, rest)"
          by (simp add: lex_string.simps split: option.splits) blast
        then obtain xs where "prepend xs (lex_string cs') = Some (str, rest)" ..
        then have "\<exists>t str'. length t \<le> length cs \<and> lex_string t = Some (str', rest)"
          by (rule lex_string_tailI) (simp add: Cons)
        then show ?thesis ..
      qed
    qed
  next
    case bs: False
    show ?thesis
    proof (cases "byte c < 0x80")
      case True
      with assms quote bs
      have "prepend [c] (lex_string cs) = Some (str, rest)"
        by (simp add: lex_string.simps split: if_splits)
      then have "\<exists>t str'. length t \<le> length cs \<and> lex_string t = Some (str', rest)"
        by (rule lex_string_tailI) simp
      then show ?thesis ..
    next
      case False
      obtain rr n where dr: "DecodeRune (c # cs) = (rr, n)"
        by (cases "DecodeRune (c # cs)")
      with assms quote bs False
      have "prepend (EncodeRune rr) (lex_string (drop n (c # cs))) = Some (str, rest)"
        by (simp add: lex_string.simps split: if_splits)
      then have "\<exists>t str'. length t \<le> length cs \<and> lex_string t = Some (str', rest)"
        by (rule lex_string_tailI) (rule DecodeRune_drop_le [OF dr])
      then show ?thesis ..
    qed
  qed
qed

lemma lex_string_shorter: "lex_string s = Some (str, rest) \<Longrightarrow> length rest < length s"
proof (induction "length s" arbitrary: s str rule: less_induct)
  case less
  show ?case
  proof (cases s)
    case Nil
    with less.prems show ?thesis by (simp add: lex_string.simps)
  next
    case (Cons c cs)
    with less.prems have "lex_string (c # cs) = Some (str, rest)"
      by simp
    then have "rest = cs \<or> (\<exists>t str'. length t \<le> length cs \<and> lex_string t = Some (str', rest))"
      by (rule lex_string_Cons)
    then show ?thesis
    proof
      assume "rest = cs"
      with Cons show ?thesis by simp
    next
      assume "\<exists>t str'. length t \<le> length cs \<and> lex_string t = Some (str', rest)"
      then obtain t str' where t: "length t \<le> length cs" "lex_string t = Some (str', rest)"
        by blast
      with Cons have "length t < length s" by simp
      from less.hyps [OF this t(2)] t(1) Cons show ?thesis by simp
    qed
  qed
qed

lemma length_dropWhile_le_Suc: "length (dropWhile P xs) < Suc (length xs)"
  by (simp add: length_dropWhile_le less_Suc_eq_le)

lemma lex_exp_shorter: "lex_exp s = Some rest \<Longrightarrow> length rest \<le> length s"
  by (auto simp: lex_exp_def length_dropWhile_le le_SucI
           split: list.splits if_splits)

lemma lex_frac_shorter: "lex_frac s = Some rest \<Longrightarrow> length rest \<le> length s"
proof -
  assume a: "lex_frac s = Some rest"
  have d: "\<And>ds. lex_exp (dropWhile isDigit ds) = Some rest \<Longrightarrow> length rest \<le> length ds"
    using lex_exp_shorter length_dropWhile_le le_trans by blast
  from a show ?thesis
    by (auto simp: lex_frac_def le_SucI split: list.splits if_splits
             dest: lex_exp_shorter d)
qed

lemma lex_number_shorter: "lex_number s = Some rest \<Longrightarrow> length rest < length s"
proof -
  assume a: "lex_number s = Some rest"
  have d: "\<And>ds. lex_frac (dropWhile isDigit ds) = Some rest \<Longrightarrow> length rest \<le> length ds"
    using lex_frac_shorter length_dropWhile_le le_trans by blast
  from a show ?thesis
    by (auto simp: lex_number_def less_Suc_eq_le le_SucI split: list.splits if_splits
             dest: lex_frac_shorter d)
qed

lemma dropWhile_Cons_shorter: "dropWhile P s = c # cs \<Longrightarrow> length cs < length s"
proof -
  assume "dropWhile P s = c # cs"
  then have "Suc (length cs) = length (dropWhile P s)" by simp
  also have "\<dots> \<le> length s" by (rule length_dropWhile_le)
  finally show ?thesis by simp
qed

lemma lex_shorter: "lex s = Token t rest \<Longrightarrow> length rest < length s"
proof -
  assume a: "lex s = Token t rest"
  then obtain c cs where dw: "dropWhile isSpace s = c # cs"
    by (cases "dropWhile isSpace s") (simp_all add: lex_def)
  then have cs: "length cs < length s"
    by (rule dropWhile_Cons_shorter)
  have "length rest \<le> length cs"
  proof (cases "c = CHR 0x22")
    case True
    with a dw obtain str where "lex_string cs = Some (str, rest)"
      by (auto simp: lex_def split: option.splits)
    then show ?thesis
      by (auto dest: lex_string_shorter)
  next
    case quote: False
    show ?thesis
    proof (cases "c = CHR ''-'' \<or> isDigit c")
      case True
      then have "c \<noteq> CHR ''{''" "c \<noteq> CHR ''}''" "c \<noteq> CHR ''[''" "c \<noteq> CHR '']''"
        "c \<noteq> CHR '':''" "c \<noteq> CHR '',''"
        by (auto simp: isDigit_def byte_def)
      with a dw quote True have "lex_number (c # cs) = Some rest"
        by (simp add: lex_def split: option.splits)
      then show ?thesis
        by (auto dest: lex_number_shorter)
    next
      case False
      with a dw quote show ?thesis
        by (auto simp: lex_def split: if_splits)
    qed
  qed
  with cs show ?thesis by simp
qed

subsection \<open>Values\<close>

text \<open>
  The model of the scanner's push-down automaton: a stack of the containers that are
  open, each with what it holds so far, and the state that says what may come next
  (named after the scanner's step functions).
\<close>

datatype frame =
    ArrayFrame "json list"
  | ObjectFrame "(string \<times> json) list"
  | MemberFrame "(string \<times> json) list" string

datatype state =
    BeginValue | BeginValueOrEmpty | BeginStringOrEmpty | BeginString | EndKey | EndValue

datatype step = Done json | Error | Continue "frame list" state

definition maxNestingDepth :: int where
  "maxNestingDepth = 10000"

definition push :: "frame \<Rightarrow> frame list \<Rightarrow> state \<Rightarrow> step" where
  "push f stack st =
     (if int (length (f # stack)) \<le> maxNestingDepth then Continue (f # stack) st else Error)"

text \<open>A value is complete: it is the result, or it goes into the innermost open container.\<close>

definition endValue :: "json \<Rightarrow> frame list \<Rightarrow> step" where
  "endValue v stack =
     (case stack of
        [] \<Rightarrow> Done v
      | ArrayFrame vs # stack' \<Rightarrow> Continue (ArrayFrame (vs @ [v]) # stack') EndValue
      | MemberFrame ms key # stack' \<Rightarrow> Continue (ObjectFrame (ms @ [(key, v)]) # stack') EndValue
      | ObjectFrame ms # stack' \<Rightarrow> Error)"

definition beginValue :: "frame list \<Rightarrow> token \<Rightarrow> step" where
  "beginValue stack t =
     (case t of
        BeginObject \<Rightarrow> push (ObjectFrame []) stack BeginStringOrEmpty
      | BeginArray \<Rightarrow> push (ArrayFrame []) stack BeginValueOrEmpty
      | StringLit str \<Rightarrow> endValue (JString str) stack
      | NumberLit \<Rightarrow> endValue JNumber stack
      | TrueLit \<Rightarrow> endValue (JBool True) stack
      | FalseLit \<Rightarrow> endValue (JBool False) stack
      | NullLit \<Rightarrow> endValue JNull stack
      | _ \<Rightarrow> Error)"

definition beginString :: "frame list \<Rightarrow> token \<Rightarrow> step" where
  "beginString stack t =
     (case (t, stack) of
        (StringLit key, ObjectFrame ms # stack') \<Rightarrow> Continue (MemberFrame ms key # stack') EndKey
      | _ \<Rightarrow> Error)"

definition closeFrame :: "frame list \<Rightarrow> step" where
  "closeFrame stack =
     (case stack of
        ArrayFrame vs # stack' \<Rightarrow> endValue (JArray vs) stack'
      | ObjectFrame ms # stack' \<Rightarrow> endValue (JObject ms) stack'
      | _ \<Rightarrow> Error)"

definition step :: "frame list \<Rightarrow> state \<Rightarrow> token \<Rightarrow> step" where
  "step stack st t =
     (case st of
        BeginValue \<Rightarrow> beginValue stack t
      | BeginValueOrEmpty \<Rightarrow> if t = EndArray then closeFrame stack else beginValue stack t
      | BeginStringOrEmpty \<Rightarrow> if t = EndObject then closeFrame stack else beginString stack t
      | BeginString \<Rightarrow> beginString stack t
      | EndKey \<Rightarrow> if t = Colon then Continue stack BeginValue else Error
      | EndValue \<Rightarrow>
          (case (stack, t) of
             (ArrayFrame vs # stack', Comma) \<Rightarrow> Continue stack BeginValue
           | (ArrayFrame vs # stack', EndArray) \<Rightarrow> closeFrame stack
           | (ObjectFrame ms # stack', Comma) \<Rightarrow> Continue stack BeginString
           | (ObjectFrame ms # stack', EndObject) \<Rightarrow> closeFrame stack
           | _ \<Rightarrow> Error))"

function scan :: "frame list \<Rightarrow> state \<Rightarrow> string \<Rightarrow> json option" where
  "scan stack st s =
     (case lex s of
        EndOfInput \<Rightarrow> None
      | Invalid \<Rightarrow> None
      | Token t rest \<Rightarrow>
          (case step stack st t of
             Done v \<Rightarrow> Some v
           | Error \<Rightarrow> None
           | Continue stack' st' \<Rightarrow> scan stack' st' rest))"
  by pat_completeness auto

termination scan
  by (relation "measure (\<lambda>(stack, st, s). length s)") (auto dest: lex_shorter)

declare scan.simps [simp del]

definition readValue :: "string \<Rightarrow> json option" where
  "readValue body = scan [] BeginValue body"


subsection \<open>Storing the value into \<open>EmailRes\<close>\<close>

text \<open>
  An object key selects the field whose \<open>json\<close> tag it equals, or else the field whose
  tag it equals after case folding. \<open>foldName\<close> maps the letters \<open>a\<close> to \<open>z\<close> to upper case
  and every other rune to the least rune of its orbit under simple case folding. The
  two tags are ASCII, and the only runes above 0x7F whose orbit holds an ASCII letter are
  U+017F (with \<open>S\<close>) and U+212A (with \<open>K\<close>); \<open>foldRune\<close> folds these two and leaves every
  other rune above 0x7F in place, which decides the comparison with a tag as the
  library does.
\<close>

definition foldRune :: "int \<Rightarrow> int" where
  "foldRune r = (if r = 0x17F then 0x53 else if r = 0x212A then 0x4B else r)"

function foldName :: "string \<Rightarrow> string" where
  "foldName [] = []"
| "foldName (c # cs) =
     (if byte c < 0x80 then
        (if 0x61 \<le> byte c \<and> byte c \<le> 0x7A then char_of (byte c - 0x20) else c) # foldName cs
      else
        (case DecodeRune (c # cs) of (r, n) \<Rightarrow>
           EncodeRune (foldRune r) @ foldName (drop n (c # cs))))"
  by pat_completeness auto

termination foldName
  by (relation "measure length") (auto dest: DecodeRune_drop)

declare foldName.simps [simp del]

datatype field = Success_field | Message_field

definition field_of_key :: "string \<Rightarrow> field option" where
  "field_of_key key =
     (if key = ''success'' then Some Success_field
      else if key = ''message'' then Some Message_field
      else if foldName key = foldName ''success'' then Some Success_field
      else if foldName key = foldName ''message'' then Some Message_field
      else None)"

text \<open>
  Storing a value into a field. The second component of the state says that an
  \<open>UnmarshalTypeError\<close> has been saved: a value of the wrong JSON type leaves the field as
  it is and decoding goes on, \<open>null\<close> leaves a \<open>bool\<close> or \<open>string\<close> field as it is without
  an error.
\<close>

fun store :: "field \<Rightarrow> json \<Rightarrow> EmailRes \<times> bool \<Rightarrow> EmailRes \<times> bool" where
  "store Success_field (JBool b) (resp, err) = (resp\<lparr>Success := b\<rparr>, err)"
| "store Message_field (JString str) (resp, err) = (resp\<lparr>Message := str\<rparr>, err)"
| "store f JNull (resp, err) = (resp, err)"
| "store f v (resp, err) = (resp, True)"

text \<open>The members of an object, in the order of the text; a key that selects no field is skipped.\<close>

fun object :: "(string \<times> json) list \<Rightarrow> EmailRes \<times> bool \<Rightarrow> EmailRes \<times> bool" where
  "object [] st = st"
| "object ((key, v) # ms) st =
     object ms (case field_of_key key of None \<Rightarrow> st | Some f \<Rightarrow> store f v st)"

text \<open>
  \<open>var resp EmailRes\<close> is the zero value. \<open>null\<close> leaves it as it is, an object fills it,
  any other value is an \<open>UnmarshalTypeError\<close>.
\<close>

definition unmarshal :: "json \<Rightarrow> EmailRes option" where
  "unmarshal v =
     (case v of
        JNull \<Rightarrow> Some \<lparr>Success = False, Message = []\<rparr>
      | JObject ms \<Rightarrow>
          (case object ms (\<lparr>Success = False, Message = []\<rparr>, False) of
             (resp, err) \<Rightarrow> if err then None else Some resp)
      | _ \<Rightarrow> None)"

definition Decode :: "string \<Rightarrow> EmailRes option" where
  "Decode body = (case readValue body of None \<Rightarrow> None | Some v \<Rightarrow> unmarshal v)"


section \<open>\<open>Send\<close>\<close>

text \<open>
  The HTTP exchange is the environment of \<open>Send\<close>. \<open>c.Client.Post(url, contentType, body)\<close>
  is a parameter \<open>Post\<close>: given the receiver (possibly \<open>nil\<close>), the arguments and the state
  of the world, it returns a response or an error (always a \<open>*url.Error\<close>) and the new state
  of the world, or it panics (as it does on a \<open>nil\<close> receiver once the URL has been parsed).
\<close>

record http_Response =
  StatusCode :: int
  ResponseBody :: string

record url_Error =
  Op :: string
  URL :: string
  Err :: string

record post_args =
  post_url :: string
  post_contentType :: string
  post_body :: string

datatype post_result = PostPanic | PostError url_Error | PostResponse http_Response

text \<open>
  The Go \<open>error\<close> values \<open>Send\<close> can return: the error of \<open>json.Marshal\<close> and the error of
  \<open>Post\<close> as they are, and the values made by \<open>errors.New\<close>.
\<close>

datatype error =
    MarshalError json_MarshalError
  | URLError url_Error
  | ErrorString string

text \<open>\<open>Return None\<close> is the \<open>nil\<close> error.\<close>

datatype send_result = Panic | Return "error option"

definition Send ::
  "(http_Client option \<Rightarrow> post_args \<Rightarrow> 'w \<Rightarrow> post_result \<times> 'w)
     \<Rightarrow> Client \<Rightarrow> EmailReq \<Rightarrow> 'w \<Rightarrow> send_result \<times> 'w" where
  "Send Post c req w =
     (case Marshal req of
        Inl err \<Rightarrow> (Return (Some (MarshalError err)), w)
      | Inr jsonData \<Rightarrow>
          (case Post (Client c)
                  \<lparr>post_url = BaseURL c @ ''/send'', post_contentType = ''application/json'',
                   post_body = jsonData\<rparr> w of
             (PostPanic, w') \<Rightarrow> (Panic, w')
           | (PostError err, w') \<Rightarrow> (Return (Some (URLError err)), w')
           | (PostResponse res, w') \<Rightarrow>
               (case Decode (ResponseBody res) of
                  None \<Rightarrow>
                    (Return (Some (ErrorString ''email sent but failed to decode response'')), w')
                | Some resp \<Rightarrow>
                    if \<not> Success resp
                    then (Return (Some (ErrorString (''failed to send email: '' @ Message resp))), w')
                    else (Return None, w'))))"

text \<open>
  A panic of \<open>Post\<close> goes through \<open>Send\<close> (it has no \<open>recover\<close>); \<open>defer res.Body.Close()\<close>
  changes nothing that \<open>Send\<close> returns and is left out.
\<close>


section \<open>Notions used in the properties\<close>

subsection \<open>The request on the wire\<close>

text \<open>
  The document of a request, written out: the six keys in the order of the struct
  fields, each followed by the encoding of its field. A \<open>nil\<close> recipient list is \<open>null\<close>.
\<close>

definition wire_document :: "EmailReq \<Rightarrow> string" where
  \<open>wire_document req =
     ''{"creds":{"email":'' @ encode_string (Email (Creds req))
       @ '',"pwd":'' @ encode_string (Pwd (Creds req))
       @ ''},"to_list":''
       @ (case ToList req of
            None \<Rightarrow> ''null''
          | Some rcpts \<Rightarrow> ''['' @ join_comma (map encode_string rcpts) @ '']'')
       @ '',"subject":'' @ encode_string (Subject req)
       @ '',"body":'' @ encode_string (Body req)
       @ '',"html":'' @ (if Html req then ''true'' else ''false'')
       @ '',"from_name":'' @ encode_string (FromName req) @ ''}''\<close>

text \<open>The Go values that \<open>json.Marshal\<close> can encode.\<close>

fun supported :: "go_value \<Rightarrow> bool" where
  "supported (GoString s) = True"
| "supported (GoBool b) = True"
| "supported (GoSlice None) = True"
| "supported (GoSlice (Some vs)) = list_all supported vs"
| "supported (GoStruct fs) = list_all (\<lambda>f. supported (snd f)) fs"
| "supported GoChan = False"
| "supported GoFunc = False"
| "supported GoComplex = False"








subsection \<open>Outcomes\<close>



text \<open>A JSON value that a \<open>string\<close> field takes without an error.\<close>

definition string_or_null :: "json \<Rightarrow> bool" where
  "string_or_null v = (case v of JNull \<Rightarrow> True | JString str \<Rightarrow> True | _ \<Rightarrow> False)"

subsection \<open>Transports and requests of the examples\<close>

text \<open>The arguments of the one call of \<open>Post\<close> in \<open>Send\<close>, for a client and a document.\<close>

abbreviation send_args :: "Client \<Rightarrow> string \<Rightarrow> post_args" where
  "send_args c doc \<equiv>
     \<lparr>post_url = BaseURL c @ ''/send'', post_contentType = ''application/json'', post_body = doc\<rparr>"

text \<open>
  A transport that answers every request with the same response and leaves the world as
  it is.
\<close>

definition respond_with ::
  "http_Response \<Rightarrow> http_Client option \<Rightarrow> post_args \<Rightarrow> 'w \<Rightarrow> post_result \<times> 'w" where
  "respond_with res h args w = (PostResponse res, w)"


text \<open>The request and the client of the package's usage example.\<close>

definition example_req :: EmailReq where
  "example_req =
     \<lparr>Creds = \<lparr>Email = ''noreply@bakiverse.com'', Pwd = ''your-password''\<rparr>,
      ToList = Some [''user@example.com''],
      Subject = ''Welcome to Bakiverse!'',
      Body = ''<h1>Hello world</h1><p>This is a test.</p>'',
      Html = True,
      FromName = ''Bakiverse Bot''\<rparr>"

definition example_client :: Client where
  "example_client = NewClient ''https://mailer.bakiverse.com''"




section \<open>Properties\<close>

subsection \<open>Serialization\<close>

lemma collect_strings:
  "collect (map (encode_value \<circ> GoString) xs) = Inr (map encode_string xs)"
  by (induction xs) simp_all

lemma encode_key:
  \<open>encode_string ''creds'' = ''"creds"''\<close>
  \<open>encode_string ''email'' = ''"email"''\<close>
  \<open>encode_string ''pwd'' = ''"pwd"''\<close>
  \<open>encode_string ''to_list'' = ''"to_list"''\<close>
  \<open>encode_string ''subject'' = ''"subject"''\<close>
  \<open>encode_string ''body'' = ''"body"''\<close>
  \<open>encode_string ''html'' = ''"html"''\<close>
  \<open>encode_string ''from_name'' = ''"from_name"''\<close>
  by (simp_all add: encode_string_def htmlSafe_def byte_def)

lemma encode_Creds:
  \<open>encode_value (Creds_value cr) =
     Inr (''{"email":'' @ encode_string (Email cr) @ '',"pwd":'' @ encode_string (Pwd cr) @ ''}'')\<close>
  by (simp add: Creds_value_def encode_key)

lemma encode_ToList:
  "encode_value (GoSlice (map_option (map GoString) rcpts)) =
     Inr (case rcpts of
            None \<Rightarrow> ''null''
          | Some xs \<Rightarrow> ''['' @ join_comma (map encode_string xs) @ '']'')"
  by (cases rcpts) (simp_all add: collect_strings)

lemma Marshal_document: "Marshal req = Inr (wire_document req)"
  by (simp add: Marshal_def EmailReq_value_def encode_Creds encode_ToList encode_key
        wire_document_def)

lemma encode_runes_safe: "\<forall>ch\<in>set s. htmlSafe ch \<Longrightarrow> encode_runes s = s"
  by (induction s) (simp_all add: htmlSafe_def)

text \<open>
  Reading back the document of a request whose strings the encoder copies unchanged
  gives the fields of the request: the scanner is run on the document, with the strings
  and the recipient list left symbolic.
\<close>

lemma lex_string_safe:
  "list_all htmlSafe s \<Longrightarrow> lex_string (s @ CHR 0x22 # rest) = Some (s, rest)"
proof (induction s)
  case Nil
  show ?case by (simp add: lex_string.simps)
next
  case (Cons c s)
  then have "c \<noteq> CHR 0x22" "c \<noteq> CHR 0x5C" "\<not> byte c < 0x20" "byte c < 0x80"
    by (simp_all add: htmlSafe_def)
  with Cons show ?case
    by (simp add: lex_string.simps prepend_def)
qed

lemma encode_string_safe:
  "list_all htmlSafe s \<Longrightarrow> encode_string s = CHR 0x22 # s @ [CHR 0x22]"
  by (simp add: encode_string_def encode_runes_safe list_all_iff)

lemma lex_punct:
  "lex (CHR ''{'' # rest) = Token BeginObject rest"
  "lex (CHR ''}'' # rest) = Token EndObject rest"
  "lex (CHR ''['' # rest) = Token BeginArray rest"
  "lex (CHR '']'' # rest) = Token EndArray rest"
  "lex (CHR '':'' # rest) = Token Colon rest"
  "lex (CHR '','' # rest) = Token Comma rest"
  by (simp_all add: lex_def isSpace_def)

lemma lex_literal:
  "lex (CHR ''t'' # CHR ''r'' # CHR ''u'' # CHR ''e'' # rest) = Token TrueLit rest"
  "lex (CHR ''f'' # CHR ''a'' # CHR ''l'' # CHR ''s'' # CHR ''e'' # rest) = Token FalseLit rest"
  "lex (CHR ''n'' # CHR ''u'' # CHR ''l'' # CHR ''l'' # rest) = Token NullLit rest"
  by (simp_all add: lex_def isSpace_def isDigit_def byte_def)

lemma lex_quote: "lex (CHR 0x22 # rest) =
    (case lex_string rest of None \<Rightarrow> Invalid | Some (str, rest') \<Rightarrow> Token (StringLit str) rest')"
  by (simp add: lex_def isSpace_def)






lemma scan_Cons:
  "scan stack st (c # cs) =
     (case lex (c # cs) of
        EndOfInput \<Rightarrow> None
      | Invalid \<Rightarrow> None
      | Token t rest \<Rightarrow>
          (case step stack st t of
             Done v \<Rightarrow> Some v
           | Error \<Rightarrow> None
           | Continue stack' st' \<Rightarrow> scan stack' st' rest))"
  by (rule scan.simps)

lemmas scanner_simps =
  scan_Cons lex_quote lex_string.simps lex_string_safe prepend_def lex_punct lex_literal
  step_def beginValue_def beginString_def endValue_def closeFrame_def push_def
  maxNestingDepth_def byte_def encode_string_safe






text \<open>The encoder fails exactly on the values that hold a kind it refuses.\<close>

lemma collect_Inr:
  "(\<exists>ds. collect rs = Inr ds) \<longleftrightarrow> list_all (\<lambda>r. \<exists>d. r = Inr d) rs"
proof (induction rs)
  case Nil
  show ?case by simp
next
  case (Cons r rs)
  then show ?case
    by (cases r) (auto split: sum.splits)
qed

lemma encode_value_supported: "(\<exists>d. encode_value v = Inr d) \<longleftrightarrow> supported v"
proof (induction v rule: encode_value.induct)
  case (4 vs)
  have "(\<exists>d. encode_value (GoSlice (Some vs)) = Inr d)
      \<longleftrightarrow> (\<exists>ds. collect (map encode_value vs) = Inr ds)"
    by (auto split: sum.splits)
  also have "\<dots> \<longleftrightarrow> list_all (\<lambda>x. \<exists>d. encode_value x = Inr d) vs"
    by (simp add: collect_Inr list_all_iff)
  also have "\<dots> \<longleftrightarrow> list_all supported vs"
    using 4 by (simp add: list_all_iff)
  finally show ?case by simp
next
  case (5 fs)
  let ?enc = "\<lambda>f. case encode_value (snd f) of
      Inl e \<Rightarrow> Inl e | Inr d \<Rightarrow> Inr (encode_string (fst f) @ '':'' @ d)"
  have "(\<exists>d. encode_value (GoStruct fs) = Inr d) \<longleftrightarrow> (\<exists>ds. collect (map ?enc fs) = Inr ds)"
    by (auto split: sum.splits)
  also have "\<dots> \<longleftrightarrow> list_all (\<lambda>f. \<exists>d. ?enc f = Inr d) fs"
    by (simp add: collect_Inr list_all_iff)
  also have "\<dots> \<longleftrightarrow> list_all (\<lambda>f. \<exists>d. encode_value (snd f) = Inr d) fs"
  proof -
    have "(\<exists>d. ?enc f = Inr d) \<longleftrightarrow> (\<exists>d. encode_value (snd f) = Inr d)" for f
      by (cases "encode_value (snd f)") simp_all
    then show ?thesis by simp
  qed
  also have "\<dots> \<longleftrightarrow> list_all (\<lambda>f. supported (snd f)) fs"
    using 5 by (simp add: list_all_iff)
  finally show ?case by simp
qed simp_all

lemma EmailReq_supported: "supported (EmailReq_value req)"
  by (cases "ToList req") (simp_all add: EmailReq_value_def Creds_value_def list_all_iff)

subsection \<open>The steps of \<open>Send\<close>\<close>

lemma Send_cases:
  assumes "Marshal req = Inr doc"
  shows "fst (Send Post c req w) =
    (case fst (Post (Client c) (send_args c doc) w) of
       PostPanic \<Rightarrow> Panic
     | PostError err \<Rightarrow> Return (Some (URLError err))
     | PostResponse res \<Rightarrow>
         (case Decode (ResponseBody res) of
            None \<Rightarrow> Return (Some (ErrorString ''email sent but failed to decode response''))
          | Some resp \<Rightarrow>
              if \<not> Success resp
              then Return (Some (ErrorString (''failed to send email: '' @ Message resp)))
              else Return None))"
  using assms
  by (cases "Post (Client c) (send_args c doc) w")
     (simp add: Send_def split: post_result.splits option.splits)

lemma Send_response:
  assumes "Marshal req = Inr doc"
    and "Post (Client c) (send_args c doc) w = (PostResponse res, w')"
  shows "fst (Send Post c req w) =
    (case Decode (ResponseBody res) of
       None \<Rightarrow> Return (Some (ErrorString ''email sent but failed to decode response''))
     | Some resp \<Rightarrow>
         if \<not> Success resp
         then Return (Some (ErrorString (''failed to send email: '' @ Message resp)))
         else Return None)"
  using assms by (simp add: Send_cases)

lemma Send_respond_with:
  "fst (Send (respond_with res) c req w) =
    (case Decode (ResponseBody res) of
       None \<Rightarrow> Return (Some (ErrorString ''email sent but failed to decode response''))
     | Some resp \<Rightarrow>
         if \<not> Success resp
         then Return (Some (ErrorString (''failed to send email: '' @ Message resp)))
         else Return None)"
  by (rule Send_response [OF Marshal_document]) (simp add: respond_with_def)

lemma Send_panic:
  assumes "Marshal req = Inr doc"
    and "fst (Post (Client c) (send_args c doc) w) = PostPanic"
  shows "fst (Send Post c req w) = Panic"
  using assms by (simp add: Send_cases)


text \<open>Response bodies, decoded.\<close>

lemma Decode_examples:
  \<open>Decode ''{"success": true}'' = Some \<lparr>Success = True, Message = []\<rparr>\<close>
  \<open>Decode ''{"success": true, "message": ""}'' = Some \<lparr>Success = True, Message = []\<rparr>\<close>
  \<open>Decode ''{"success": false, "message": "invalid recipient"}''
     = Some \<lparr>Success = False, Message = ''invalid recipient''\<rparr>\<close>
  \<open>Decode [] = None\<close>
  \<open>Decode ''<html>Bad Gateway</html>'' = None\<close>
  \<open>Decode ''{}'' = Some \<lparr>Success = False, Message = []\<rparr>\<close>
  \<open>Decode ''{"message": 5}'' = None\<close>
  \<open>Decode ''{"Success": true}'' = Some \<lparr>Success = True, Message = []\<rparr>\<close>
  \<open>Decode ''{"error": 7, "message": "quota exceeded"}''
     = Some \<lparr>Success = False, Message = ''quota exceeded''\<rparr>\<close>
  by code_simp+

lemma readValue_examples:
  \<open>readValue ''{}'' = Some (JObject [])\<close>
  \<open>readValue ''{"message": 5}'' = Some (JObject [(''message'', JNumber)])\<close>
  \<open>readValue ''{"Success": true}'' = Some (JObject [(''Success'', JBool True)])\<close>
  \<open>readValue ''{"error": 7, "message": "quota exceeded"}''
     = Some (JObject [(''error'', JNumber), (''message'', JString ''quota exceeded'')])\<close>
  by code_simp+

text \<open>
  Bodies on which decoding fails: nothing but white space (the empty body is one), or a
  first byte that starts no JSON value (as the \<open><\<close> of an HTML page).
\<close>

lemma Decode_blank: "list_all isSpace s \<Longrightarrow> Decode s = None"
proof -
  assume "list_all isSpace s"
  then have "dropWhile isSpace s = []"
    by (simp add: dropWhile_eq_Nil_conv list_all_iff)
  then have "lex s = EndOfInput"
    by (simp add: lex_def del: dropWhile_eq_Nil_conv)
  then show ?thesis
    by (simp add: Decode_def readValue_def scan.simps)
qed

lemma isDigit_cases: "isDigit c \<Longrightarrow> c \<in> set ''0123456789''"
proof -
  assume "isDigit c"
  then have "of_char c \<in> {48..57::int}"
    by (simp add: isDigit_def byte_def)
  then have "of_char c \<in> (of_char ` set ''0123456789'' :: int set)"
    by (auto simp: atLeastAtMost_iff) presburger
  then obtain d where d: "d \<in> set ''0123456789''" and "of_char c = (of_char d :: int)"
    by blast
  then have "c = d"
    by (simp only: of_char_eq_iff)
  with d show ?thesis
    by (simp only:)
qed

lemma Decode_no_value:
  assumes "dropWhile isSpace s = c # cs"
    and "c \<notin> set ''{[-0123456789tfn'' \<and> c \<noteq> CHR 0x22"
  shows "Decode s = None"
proof -
  from assms(2) isDigit_cases [of c] have digit: "\<not> isDigit c"
    by auto
  have *: "take n (c # cs) = d # ds \<Longrightarrow> c = d" for n d ds
    by (cases n) simp_all
  from assms(2) have "take 4 (c # cs) \<noteq> ''true''" "take 5 (c # cs) \<noteq> ''false''"
    "take 4 (c # cs) \<noteq> ''null''"
    by (auto dest!: *)
  with assms digit have "lex s = Invalid \<or> (\<exists>t rest. lex s = Token t rest
      \<and> t \<in> {EndObject, EndArray, Colon, Comma})"
    by (auto simp: lex_def)
  then show ?thesis
    by (auto simp: Decode_def readValue_def scan.simps step_def beginValue_def)
qed

text \<open>A rejection whose message the encoder would copy unchanged is decoded to that message.\<close>

lemma Decode_rejection:
  assumes "list_all htmlSafe msg"
  shows \<open>Decode (''{"success":false,"message":"'' @ msg @ ''"}'')
    = Some \<lparr>Success = False, Message = msg\<rparr>\<close>
proof -
  have key: "field_of_key ''success'' = Some Success_field"
    "field_of_key ''message'' = Some Message_field"
    by (simp_all add: field_of_key_def)
  have \<open>readValue (''{"success":false,"message":"'' @ msg @ ''"}'')
      = Some (JObject [(''success'', JBool False), (''message'', JString msg)])\<close>
    using assms by (simp add: readValue_def scanner_simps)
  then show ?thesis
    by (simp add: Decode_def unmarshal_def key)
qed





text \<open>
  An object in which no key selects \<open>Success\<close> and every value for \<open>Message\<close> is a string
  or \<open>null\<close> is stored without an error, and \<open>Success\<close> stays false.
\<close>

lemma object_without_success:
  assumes "list_all (\<lambda>(key, v). field_of_key key \<noteq> Some Success_field) ms"
    and "list_all (\<lambda>(key, v). field_of_key key = Some Message_field \<longrightarrow> string_or_null v) ms"
  shows "\<exists>msg'. object ms (\<lparr>Success = False, Message = msg\<rparr>, False)
            = (\<lparr>Success = False, Message = msg'\<rparr>, False)
          \<and> (list_all (\<lambda>(key, v). field_of_key key = None) ms \<longrightarrow> msg' = msg)"
  using assms
proof (induction ms arbitrary: msg)
  case Nil
  then show ?case by simp
next
  case (Cons m ms)
  obtain key v where m: "m = (key, v)"
    by (cases m)
  from Cons.prems m have rest:
    "list_all (\<lambda>(key, v). field_of_key key \<noteq> Some Success_field) ms"
    "list_all (\<lambda>(key, v). field_of_key key = Some Message_field \<longrightarrow> string_or_null v) ms"
    by simp_all
  show ?case
  proof (cases "field_of_key key")
    case None
    with Cons.IH [OF rest, of msg] m show ?thesis by auto
  next
    case (Some f)
    with Cons.prems m have f: "f = Message_field" and v: "string_or_null v"
      by (cases f; simp)+
    from v consider "v = JNull" | str where "v = JString str"
      by (cases v) (simp_all add: string_or_null_def)
    then show ?thesis
    proof cases
      case 1
      with Cons.IH [OF rest, of msg] m Some f show ?thesis by auto
    next
      case 2
      with Cons.IH [OF rest, of str] m Some f show ?thesis by auto
    qed
  qed
qed

subsection \<open>The properties of the specification\<close>

text \<open>
  C1. The outcome of \<open>Send\<close> does not depend on the status code of the response: two
  transports that answer the request of \<open>Send\<close> with responses of equal bodies give the
  same outcome, whatever the two status codes are. (The witness: the body
  \<open>{"success": true}\<close> with status 500 is success, as with status 200.)
\<close>

theorem Send_ignores_StatusCode:
  assumes "Marshal req = Inr doc"
    and "PostA (Client c) (send_args c doc) w = (PostResponse resA, wA)"
    and "PostB (Client c) (send_args c doc) w = (PostResponse resB, wB)"
    and "ResponseBody resA = ResponseBody resB"
  shows "fst (Send PostA c req w) = fst (Send PostB c req w)"
  using assms by (simp add: Send_response)

theorem Send_ignores_StatusCode_witness:
  \<open>Marshal example_req = Inr (wire_document example_req)
   \<and> respond_with \<lparr>StatusCode = 200, ResponseBody = ''{"success": true}''\<rparr>
        (Client example_client) (send_args example_client (wire_document example_req)) ()
       = (PostResponse \<lparr>StatusCode = 200, ResponseBody = ''{"success": true}''\<rparr>, ())
   \<and> respond_with \<lparr>StatusCode = 500, ResponseBody = ''{"success": true}''\<rparr>
        (Client example_client) (send_args example_client (wire_document example_req)) ()
       = (PostResponse \<lparr>StatusCode = 500, ResponseBody = ''{"success": true}''\<rparr>, ())
   \<and> fst (Send (respond_with \<lparr>StatusCode = 200, ResponseBody = ''{"success": true}''\<rparr>)
             example_client example_req ())
       = fst (Send (respond_with \<lparr>StatusCode = 500, ResponseBody = ''{"success": true}''\<rparr>)
               example_client example_req ())
   \<and> fst (Send (respond_with \<lparr>StatusCode = 500, ResponseBody = ''{"success": true}''\<rparr>)
             example_client example_req ())
       = Return None\<close>
proof -
  let ?r200 = \<open>\<lparr>StatusCode = 200, ResponseBody = ''{"success": true}''\<rparr>\<close>
  let ?r500 = \<open>\<lparr>StatusCode = 500, ResponseBody = ''{"success": true}''\<rparr>\<close>
  let ?args = "send_args example_client (wire_document example_req)"
  have m: "Marshal example_req = Inr (wire_document example_req)"
    by (rule Marshal_document)
  have p1: "respond_with ?r200 (Client example_client) ?args () = (PostResponse ?r200, ())"
    by (simp add: respond_with_def)
  have p2: "respond_with ?r500 (Client example_client) ?args () = (PostResponse ?r500, ())"
    by (simp add: respond_with_def)
  have same: "fst (Send (respond_with ?r200) example_client example_req ())
      = fst (Send (respond_with ?r500) example_client example_req ())"
    by (rule Send_ignores_StatusCode
          [where PostA = "respond_with ?r200" and PostB = "respond_with ?r500", OF m p1 p2])
       simp
  have ok: "fst (Send (respond_with ?r500) example_client example_req ()) = Return None"
    by (simp add: Send_respond_with Decode_examples)
  from m p1 p2 same ok show ?thesis by blast
qed

text \<open>
  C2. When the body of the response decodes to an \<open>EmailRes\<close> whose \<open>Success\<close> is false,
  \<open>Send\<close> returns the error whose text is \<open>failed to send email: \<close> followed by the decoded
  \<open>Message\<close>, unchanged. (By \<open>Decode_rejection\<close> the decoded message is the text between
  the quotes of the body when that text needs no escape.)
\<close>

theorem Send_backend_rejection:
  assumes "Marshal req = Inr doc"
    and "Post (Client c) (send_args c doc) w = (PostResponse res, w')"
    and "Decode (ResponseBody res) = Some resp"
    and "\<not> Success resp"
  shows "fst (Send Post c req w)
    = Return (Some (ErrorString (''failed to send email: '' @ Message resp)))"
  using assms by (simp add: Send_response)

theorem Send_backend_rejection_witness:
  \<open>Marshal example_req = Inr (wire_document example_req)
   \<and> Decode ''{"success": false, "message": "invalid recipient"}''
       = Some \<lparr>Success = False, Message = ''invalid recipient''\<rparr>
   \<and> fst (Send (respond_with \<lparr>StatusCode = 200,
               ResponseBody = ''{"success": false, "message": "invalid recipient"}''\<rparr>)
             example_client example_req ())
       = Return (Some (ErrorString ''failed to send email: invalid recipient''))\<close>
proof -
  let ?res = \<open>\<lparr>StatusCode = 200,
      ResponseBody = ''{"success": false, "message": "invalid recipient"}''\<rparr>\<close>
  have m: "Marshal example_req = Inr (wire_document example_req)"
    by (rule Marshal_document)
  have p: "respond_with ?res (Client example_client)
      (send_args example_client (wire_document example_req)) () = (PostResponse ?res, ())"
    by (simp add: respond_with_def)
  have d: "Decode (ResponseBody ?res) = Some \<lparr>Success = False, Message = ''invalid recipient''\<rparr>"
    by (simp add: Decode_examples)
  have "fst (Send (respond_with ?res) example_client example_req ())
      = Return (Some (ErrorString (''failed to send email: ''
          @ Message \<lparr>Success = False, Message = ''invalid recipient''\<rparr>)))"
    by (rule Send_backend_rejection [where Post = "respond_with ?res", OF m p d]) simp
  with m d show ?thesis by simp
qed

text \<open>
  C3. When decoding the body of the response fails, whatever the status code, \<open>Send\<close>
  returns the error whose text is \<open>email sent but failed to decode response\<close>. By
  \<open>Decode_blank\<close> and \<open>Decode_no_value\<close> decoding fails on every body of white space only
  and on every body whose first byte starts no JSON value. (The witness: the empty
  body, and an HTML page with status 502.)
\<close>

theorem Send_decode_failure:
  assumes "Marshal req = Inr doc"
    and "Post (Client c) (send_args c doc) w = (PostResponse res, w')"
    and "Decode (ResponseBody res) = None"
  shows "fst (Send Post c req w)
    = Return (Some (ErrorString ''email sent but failed to decode response''))"
  using assms by (simp add: Send_response)

theorem Send_decode_failure_witness:
  \<open>Marshal example_req = Inr (wire_document example_req)
   \<and> Decode [] = None
   \<and> fst (Send (respond_with \<lparr>StatusCode = 200, ResponseBody = []\<rparr>) example_client example_req ())
       = Return (Some (ErrorString ''email sent but failed to decode response''))
   \<and> Decode ''<html>Bad Gateway</html>'' = None
   \<and> fst (Send (respond_with \<lparr>StatusCode = 502, ResponseBody = ''<html>Bad Gateway</html>''\<rparr>)
             example_client example_req ())
       = Return (Some (ErrorString ''email sent but failed to decode response''))\<close>
proof -
  let ?empty = "\<lparr>StatusCode = 200, ResponseBody = []\<rparr>"
  let ?html = "\<lparr>StatusCode = 502, ResponseBody = ''<html>Bad Gateway</html>''\<rparr>"
  let ?args = "send_args example_client (wire_document example_req)"
  have m: "Marshal example_req = Inr (wire_document example_req)"
    by (rule Marshal_document)
  have p1: "respond_with ?empty (Client example_client) ?args () = (PostResponse ?empty, ())"
    by (simp add: respond_with_def)
  have p2: "respond_with ?html (Client example_client) ?args () = (PostResponse ?html, ())"
    by (simp add: respond_with_def)
  have d1: "Decode (ResponseBody ?empty) = None"
    by (simp add: Decode_examples)
  have d2: "Decode (ResponseBody ?html) = None"
    by (simp add: Decode_examples)
  note Send_decode_failure [where Post = "respond_with ?empty", OF m p1 d1]
    Send_decode_failure [where Post = "respond_with ?html", OF m p2 d2]
  with m d1 d2 show ?thesis by simp
qed

text \<open>
  C4. When the body of the response decodes to an \<open>EmailRes\<close> whose \<open>Success\<close> is true,
  \<open>Send\<close> returns the \<open>nil\<close> error, whatever \<open>Message\<close> holds.
\<close>

theorem Send_success:
  assumes "Marshal req = Inr doc"
    and "Post (Client c) (send_args c doc) w = (PostResponse res, w')"
    and "Decode (ResponseBody res) = Some resp"
    and "Success resp"
  shows "fst (Send Post c req w) = Return None"
  using assms by (simp add: Send_response)

theorem Send_success_witness:
  \<open>Marshal example_req = Inr (wire_document example_req)
   \<and> Decode ''{"success": true, "message": ""}'' = Some \<lparr>Success = True, Message = []\<rparr>
   \<and> fst (Send (respond_with \<lparr>StatusCode = 200,
               ResponseBody = ''{"success": true, "message": ""}''\<rparr>)
             example_client example_req ())
       = Return None\<close>
proof -
  let ?res = \<open>\<lparr>StatusCode = 200, ResponseBody = ''{"success": true, "message": ""}''\<rparr>\<close>
  have m: "Marshal example_req = Inr (wire_document example_req)"
    by (rule Marshal_document)
  have p: "respond_with ?res (Client example_client)
      (send_args example_client (wire_document example_req)) () = (PostResponse ?res, ())"
    by (simp add: respond_with_def)
  have d: "Decode (ResponseBody ?res) = Some \<lparr>Success = True, Message = []\<rparr>"
    by (simp add: Decode_examples)
  have "fst (Send (respond_with ?res) example_client example_req ()) = Return None"
    by (rule Send_success [where Post = "respond_with ?res", OF m p d]) simp
  with m d show ?thesis by simp
qed







text \<open>
  C8. \<open>NewClient\<close> is total: for every string, checked in no way, it returns a client
  whose base address is that string, unchanged, and whose HTTP client has a timeout of
  ten seconds, that is 10,000,000,000 nanoseconds (the product does not wrap in an
  \<open>int64\<close>).
\<close>

theorem NewClient_fields:
  "BaseURL (NewClient baseURL) = baseURL
   \<and> (\<exists>h. Client (NewClient baseURL) = Some h
          \<and> Timeout h = 10 * Second \<and> sint (Timeout h) = 10 * 1000000000)"
  by (simp add: NewClient_def Second_def)

text \<open>
  C9. What \<open>json.Marshal\<close> sees of an \<open>EmailReq\<close> holds only kinds of values that it can
  encode, so it succeeds on every request, and \<open>Send\<close> never returns a serialization
  error.
\<close>

theorem Marshal_succeeds:
  "supported (EmailReq_value req)
   \<and> (\<exists>doc. Marshal req = Inr doc)
   \<and> (\<forall>e. fst (Send Post c req w) \<noteq> Return (Some (MarshalError e)))"
proof -
  have s: "supported (EmailReq_value req)"
    by (rule EmailReq_supported)
  then obtain doc where m: "Marshal req = Inr doc"
    unfolding Marshal_def using encode_value_supported by blast
  have "fst (Send Post c req w) \<noteq> Return (Some (MarshalError e))" for e
    by (simp add: Send_cases [OF m] split: post_result.splits option.splits)
  with s m show ?thesis by blast
qed

text \<open>
  C10, as stated, fails on two bodies that are JSON objects without a key \<open>success\<close>:
  a \<open>message\<close> that is not a string makes decoding fail, so \<open>Send\<close> reports a decode
  error, and a key that equals \<open>success\<close> up to the case of its letters sets the field, so
  \<open>Send\<close> reports success.
\<close>

theorem Decode_without_success_counterexample:
  \<open>readValue ''{"message": 5}'' = Some (JObject [(''message'', JNumber)])
   \<and> Decode ''{"message": 5}'' = None
   \<and> fst (Send (respond_with \<lparr>StatusCode = 200, ResponseBody = ''{"message": 5}''\<rparr>)
             example_client example_req ())
       = Return (Some (ErrorString ''email sent but failed to decode response''))
   \<and> readValue ''{"Success": true}'' = Some (JObject [(''Success'', JBool True)])
   \<and> Decode ''{"Success": true}'' = Some \<lparr>Success = True, Message = []\<rparr>
   \<and> fst (Send (respond_with \<lparr>StatusCode = 200, ResponseBody = ''{"Success": true}''\<rparr>)
             example_client example_req ())
       = Return None\<close>
  by (simp add: Send_respond_with Decode_examples readValue_examples)

text \<open>
  C10, amended. When the first JSON value of the body is an object in which no key
  selects the field \<open>Success\<close> (no key is \<open>success\<close>, even up to the case of its letters)
  and every value under a key that selects the field \<open>Message\<close> is a string or \<open>null\<close>,
  decoding succeeds with \<open>Success\<close> false and \<open>Send\<close> returns the error whose text is
  \<open>failed to send email: \<close> followed by the decoded message; the message is empty when no
  key selects a field.
\<close>

theorem Send_without_success:
  assumes "Marshal req = Inr doc"
    and "Post (Client c) (send_args c doc) w = (PostResponse res, w')"
    and "readValue (ResponseBody res) = Some (JObject ms)"
    and "list_all (\<lambda>(key, v). field_of_key key \<noteq> Some Success_field) ms"
    and "list_all (\<lambda>(key, v). field_of_key key = Some Message_field \<longrightarrow> string_or_null v) ms"
  shows "\<exists>resp. Decode (ResponseBody res) = Some resp \<and> \<not> Success resp
    \<and> fst (Send Post c req w)
        = Return (Some (ErrorString (''failed to send email: '' @ Message resp)))
    \<and> (list_all (\<lambda>(key, v). field_of_key key = None) ms \<longrightarrow> Message resp = [])"
proof -
  from object_without_success [OF assms(4,5), of "[]"]
  obtain msg' where obj: "object ms (\<lparr>Success = False, Message = []\<rparr>, False)
      = (\<lparr>Success = False, Message = msg'\<rparr>, False)"
    and none: "list_all (\<lambda>(key, v). field_of_key key = None) ms \<longrightarrow> msg' = []"
    by blast
  from assms(3) obj have d: "Decode (ResponseBody res) = Some \<lparr>Success = False, Message = msg'\<rparr>"
    by (simp add: Decode_def unmarshal_def)
  with assms(1,2) have "fst (Send Post c req w)
      = Return (Some (ErrorString (''failed to send email: '' @ msg')))"
    by (simp add: Send_response)
  with d none show ?thesis by simp
qed

theorem Send_without_success_witness:
  \<open>Marshal example_req = Inr (wire_document example_req)
   \<and> readValue ''{}'' = Some (JObject [])
   \<and> Decode ''{}'' = Some \<lparr>Success = False, Message = []\<rparr>
   \<and> fst (Send (respond_with \<lparr>StatusCode = 200, ResponseBody = ''{}''\<rparr>)
             example_client example_req ())
       = Return (Some (ErrorString ''failed to send email: ''))
   \<and> readValue ''{"error": 7, "message": "quota exceeded"}''
       = Some (JObject [(''error'', JNumber), (''message'', JString ''quota exceeded'')])
   \<and> fst (Send (respond_with \<lparr>StatusCode = 429,
               ResponseBody = ''{"error": 7, "message": "quota exceeded"}''\<rparr>)
             example_client example_req ())
       = Return (Some (ErrorString ''failed to send email: quota exceeded''))\<close>
proof -
  let ?r1 = \<open>\<lparr>StatusCode = 200, ResponseBody = ''{}''\<rparr>\<close>
  let ?r2 = \<open>\<lparr>StatusCode = 429, ResponseBody = ''{"error": 7, "message": "quota exceeded"}''\<rparr>\<close>
  let ?ms2 = "[(''error'', JNumber), (''message'', JString ''quota exceeded'')]"
  let ?args = "send_args example_client (wire_document example_req)"
  have m: "Marshal example_req = Inr (wire_document example_req)"
    by (rule Marshal_document)
  have p1: "respond_with ?r1 (Client example_client) ?args () = (PostResponse ?r1, ())"
    by (simp add: respond_with_def)
  have p2: "respond_with ?r2 (Client example_client) ?args () = (PostResponse ?r2, ())"
    by (simp add: respond_with_def)
  note v = readValue_examples(1,4)
  note d = Decode_examples(6,9)
  have k2: "list_all (\<lambda>(key, v). field_of_key key \<noteq> Some Success_field) ?ms2"
    "list_all (\<lambda>(key, v). field_of_key key = Some Message_field \<longrightarrow> string_or_null v) ?ms2"
    by code_simp+
  from Send_without_success [where Post = "respond_with ?r1" and ms = "[]", OF m p1] v d
  have s1: "fst (Send (respond_with ?r1) example_client example_req ())
      = Return (Some (ErrorString ''failed to send email: ''))"
    by simp
  from Send_without_success [where Post = "respond_with ?r2" and ms = ?ms2, OF m p2 _ k2] v d
  have s2: "fst (Send (respond_with ?r2) example_client example_req ())
      = Return (Some (ErrorString ''failed to send email: quota exceeded''))"
    by simp
  from m v d s1 s2 show ?thesis by blast
qed

end
